theory Spec2Isabelle
  imports Complex_Main
begin

section \<open>Python values, exceptions and the agent envelopes\<close>

text \<open>
  The payload, data and metadata maps of the envelopes are \<open>Dict[str, Any]\<close>. A value of
  type \<open>Any\<close> is a \<open>pyval\<close>: what \<open>json.loads\<close> can return, and in addition an
  \<open>AgentOutput\<close> object, because \<open>execute_workflow\<close> stores the step results themselves in
  the data of its response. A dict with string keys is a map. Floats and datetimes are
  idealised as real numbers.
\<close>

datatype pyval =
    PNone
  | PBool bool
  | PInt int
  | PFloat real
  | PStr string
  | PList "pyval list"
  | PDict "string \<Rightarrow> pyval option"
  | PModel agent_output
and agent_output =
  AgentOutput
    (success: bool)
    (out_message_id: string)
    (out_timestamp: real)
    (data: "string \<Rightarrow> pyval option")
    (error: "string option")
    (error_code: "string option")
    (out_metadata: "string \<Rightarrow> pyval option")
    (confidence: real)
    (escalation_needed: bool)

type_synonym pydict = "string \<Rightarrow> pyval option"

text \<open>
  An instance of a subclass of \<open>Exception\<close>: its class name and \<open>str(e)\<close>. Signals that
  derive from \<open>BaseException\<close> only (task cancellation, interpreter exit) are outside the model.
\<close>

datatype exn = PyExn (exn_class: string) (exn_str: string)

record agent_input =
  user_id :: "string option"
  conversation_id :: "string option"
  session_id :: "string option"
  message_id :: string
  timestamp :: real
  payload :: pydict
  metadata :: pydict

definition type_name :: "pyval \<Rightarrow> string" where
  "type_name v =
     (case v of PNone \<Rightarrow> ''NoneType'' | PBool _ \<Rightarrow> ''bool'' | PInt _ \<Rightarrow> ''int''
      | PFloat _ \<Rightarrow> ''float'' | PStr _ \<Rightarrow> ''str'' | PList _ \<Rightarrow> ''list''
      | PDict _ \<Rightarrow> ''dict'' | PModel _ \<Rightarrow> ''AgentOutput'')"

text \<open>Python truth value testing, as used by \<open>if x:\<close>, \<open>not x\<close> and \<open>x or y\<close>.\<close>

definition truthy :: "pyval \<Rightarrow> bool" where
  "truthy v =
     (case v of PNone \<Rightarrow> False | PBool b \<Rightarrow> b | PInt i \<Rightarrow> i \<noteq> 0
      | PFloat x \<Rightarrow> x \<noteq> 0 | PStr s \<Rightarrow> s \<noteq> [] | PList xs \<Rightarrow> xs \<noteq> []
      | PDict d \<Rightarrow> d \<noteq> Map.empty | PModel _ \<Rightarrow> True)"

text \<open>Lists, dicts and (unfrozen) pydantic models cannot be used as dict keys.\<close>

definition hashable :: "pyval \<Rightarrow> bool" where
  "hashable v = (case v of PList _ \<Rightarrow> False | PDict _ \<Rightarrow> False | PModel _ \<Rightarrow> False | _ \<Rightarrow> True)"

text \<open>
  \<open>d.get(k)\<close> on a dict whose keys are all strings: an unhashable key raises, a key that is
  not a string is never found.
\<close>

definition lookup_key :: "(string \<Rightarrow> 'a option) \<Rightarrow> pyval \<Rightarrow> exn + 'a option" where
  "lookup_key d k =
     (if \<not> hashable k
      then Inl (PyExn ''TypeError'' (''unhashable type: '' @ [CHR 0x27] @ type_name k @ [CHR 0x27]))
      else Inr (case k of PStr s \<Rightarrow> d s | _ \<Rightarrow> None))"

text \<open>\<open>obj.get(k, default)\<close> with a string key on an arbitrary value.\<close>

definition py_get :: "pyval \<Rightarrow> string \<Rightarrow> pyval \<Rightarrow> exn + pyval" where
  "py_get obj k dflt =
     (case obj of
        PDict d \<Rightarrow> Inr (case d k of Some v \<Rightarrow> v | None \<Rightarrow> dflt)
      | _ \<Rightarrow> Inl (PyExn ''AttributeError''
                 ([CHR 0x27] @ type_name obj @ [CHR 0x27] @ '' object has no attribute ''
                  @ [CHR 0x27] @ ''get'' @ [CHR 0x27])))"

text \<open>The operand of \<open>**x\<close> in a dict display or a call has to be a mapping.\<close>

definition dict_unpack :: "pyval \<Rightarrow> exn + pydict" where
  "dict_unpack v =
     (case v of
        PDict d \<Rightarrow> Inr d
      | _ \<Rightarrow> Inl (PyExn ''TypeError''
                 ([CHR 0x27] @ type_name v @ [CHR 0x27] @ '' object is not a mapping'')))"

text \<open>Python's \<open>int(x)\<close> on a float truncates towards zero.\<close>

definition py_int :: "real \<Rightarrow> int" where
  "py_int x = (if 0 \<le> x then \<lfloor>x\<rfloor> else \<lceil>x\<rceil>)"

definition opt_str :: "string option \<Rightarrow> pyval" where
  "opt_str x = (case x of None \<Rightarrow> PNone | Some s \<Rightarrow> PStr s)"

section \<open>The world outside the core\<close>

text \<open>
  Every call the core makes to a collaborator is recorded, in order, in the world:
  the model provider, a registered agent's \<open>process\<close>, the structured logger, a tool handler.
  The world also counts the identifiers and the clock readings drawn so far.
\<close>

datatype event =
    LLMCall pydict
  | AgentCall string agent_input
  | LogCall string string pydict
  | ToolCall string pydict

record world =
  events :: "event list"
  uuid_count :: nat
  clock_count :: nat

text \<open>What \<open>call_llm\<close> reads from a completion of the provider.\<close>

record completion =
  content :: "string option"
  tool_calls :: pyval
  prompt_tokens :: int
  completion_tokens :: int
  total_tokens :: int

text \<open>
  The collaborators and library functions, none of which is code of the core. Each may
  depend on the whole history. An agent's \<open>process\<close> and a tool handler return or raise;
  \<open>chat_create\<close> stands for \<open>client.chat.completions.create\<close> followed by the reads of
  its fields (\<open>Inl\<close>: any of them raised); \<open>logger\<close> returns the exception a log call
  raises, if any; \<open>json_loads\<close> gives the message of the \<open>JSONDecodeError\<close> on text that is
  not JSON; \<open>json_dumps\<close> raises on a value that is not serialisable; \<open>py_repr\<close> is what
  \<open>str()\<close> gives on a value that is not a string; \<open>uuid4\<close> and \<open>clock\<close> give the n-th
  identifier and the n-th clock reading.
\<close>

type_synonym agent = "agent_input \<Rightarrow> world \<Rightarrow> exn + agent_output"

record env =
  agent_registry :: "string \<Rightarrow> agent option"
  chat_create :: "pydict \<Rightarrow> world \<Rightarrow> exn + completion"
  logger :: "string \<Rightarrow> string \<Rightarrow> pydict \<Rightarrow> world \<Rightarrow> exn option"
  json_loads :: "string \<Rightarrow> string + pyval"
  json_dumps :: "pyval \<Rightarrow> exn + string"
  py_repr :: "pyval \<Rightarrow> string"
  uuid4 :: "nat \<Rightarrow> string"
  clock :: "nat \<Rightarrow> real"
  isoformat :: "real \<Rightarrow> string"

definition py_str :: "env \<Rightarrow> pyval \<Rightarrow> string" where
  "py_str env v = (case v of PStr s \<Rightarrow> s | _ \<Rightarrow> py_repr env v)"

definition new_uuid :: "env \<Rightarrow> world \<Rightarrow> string \<times> world" where
  "new_uuid env w = (uuid4 env (uuid_count w), w\<lparr>uuid_count := Suc (uuid_count w)\<rparr>)"

definition time_time :: "env \<Rightarrow> world \<Rightarrow> real \<times> world" where
  "time_time env w = (clock env (clock_count w), w\<lparr>clock_count := Suc (clock_count w)\<rparr>)"

definition record_event :: "event \<Rightarrow> world \<Rightarrow> world" where
  "record_event ev w = w\<lparr>events := events w @ [ev]\<rparr>"

text \<open>
  \<open>json.loads(x)\<close>: a \<open>TypeError\<close> on anything but text, a \<open>JSONDecodeError\<close> on text that
  is not JSON.
\<close>

definition py_json_loads :: "env \<Rightarrow> pyval \<Rightarrow> exn + pyval" where
  "py_json_loads env x =
     (case x of
        PStr s \<Rightarrow> (case json_loads env s of
                     Inl msg \<Rightarrow> Inl (PyExn ''JSONDecodeError'' msg)
                   | Inr v \<Rightarrow> Inr v)
      | _ \<Rightarrow> Inl (PyExn ''TypeError''
                 (''the JSON object must be str, bytes or bytearray, not '' @ type_name x)))"

text \<open>
  The constructors of the two pydantic models with the arguments the core passes; the
  other fields take their defaults, \<open>message_id\<close> from \<open>uuid4\<close> and \<open>timestamp\<close> from the
  clock.
\<close>

definition AgentInput_new ::
  "env \<Rightarrow> string option \<Rightarrow> string option \<Rightarrow> pydict \<Rightarrow> world \<Rightarrow> agent_input \<times> world" where
  "AgentInput_new env uid cid pl w =
     (let (mid, w1) = new_uuid env w;
          (ts, w2) = time_time env w1
      in (\<lparr>user_id = uid, conversation_id = cid, session_id = None, message_id = mid,
           timestamp = ts, payload = pl, metadata = Map.empty\<rparr>, w2))"

definition AgentOutput_new ::
  "env \<Rightarrow> bool \<Rightarrow> pydict \<Rightarrow> string option \<Rightarrow> string option \<Rightarrow> pydict \<Rightarrow> world
   \<Rightarrow> agent_output \<times> world" where
  "AgentOutput_new env ok d err code md w =
     (let (mid, w1) = new_uuid env w;
          (ts, w2) = time_time env w1
      in (AgentOutput ok mid ts d err code md 1 False, w2))"

section \<open>Tools and the base agent\<close>

record agent_tool =
  t_name :: string
  t_description :: string
  t_handler :: "pydict \<Rightarrow> world \<Rightarrow> exn + pyval"
  t_parameters :: pyval

record base_agent =
  agent_type :: string
  system_prompt :: string
  model :: string
  temperature :: real
  max_tokens :: int
  tools :: "agent_tool list"

record tool_call =
  function_name :: string
  function_arguments :: string

definition execute :: "agent_tool \<Rightarrow> pydict \<Rightarrow> world \<Rightarrow> (exn + pyval) \<times> world" where
  "execute tool kwargs w = (t_handler tool kwargs w, record_event (ToolCall (t_name tool) kwargs) w)"

definition to_openai_function :: "agent_tool \<Rightarrow> pyval" where
  "to_openai_function tool =
     PDict [''type'' \<mapsto> PStr ''function'',
            ''function'' \<mapsto> PDict [''name'' \<mapsto> PStr (t_name tool),
                                    ''description'' \<mapsto> PStr (t_description tool),
                                    ''parameters'' \<mapsto> t_parameters tool] ]"

text \<open>A call of the agent's bound logger: the entry carries the bound \<open>agent_type\<close>.\<close>

definition log_call ::
  "env \<Rightarrow> base_agent \<Rightarrow> string \<Rightarrow> string \<Rightarrow> pydict \<Rightarrow> world \<Rightarrow> (exn + unit) \<times> world" where
  "log_call env self level ev kws w =
     (let entry = [''agent_type'' \<mapsto> PStr (agent_type self)] ++ kws
      in ((case logger env level ev entry w of Some e \<Rightarrow> Inl e | None \<Rightarrow> Inr ()),
          record_event (LogCall level ev entry) w))"

text \<open>The keyword arguments that \<open>call_llm\<close> passes to the provider.\<close>

definition llm_params ::
  "base_agent \<Rightarrow> pyval list \<Rightarrow> agent_tool list option \<Rightarrow> pydict option \<Rightarrow> real option
   \<Rightarrow> pydict" where
  "llm_params self messages tools' response_format temperature' =
     (let all_tools = tools self @ (case tools' of None \<Rightarrow> [] | Some ts \<Rightarrow> ts);
          params0 = [''model'' \<mapsto> PStr (model self),
                     ''messages'' \<mapsto> PList messages,
                     ''temperature'' \<mapsto>
                        PFloat (case temperature' of
                                  None \<Rightarrow> temperature self
                                | Some t \<Rightarrow> if t \<noteq> 0 then t else temperature self),
                     ''max_tokens'' \<mapsto> PInt (max_tokens self)];
          params1 = (if all_tools \<noteq> []
                     then params0(''tools'' \<mapsto> PList (map to_openai_function all_tools))
                     else params0)
      in case response_format of
           None \<Rightarrow> params1
         | Some f \<Rightarrow> if f \<noteq> Map.empty
                     then params1(''response_format'' \<mapsto> PDict f) else params1)"

definition call_llm ::
  "env \<Rightarrow> base_agent \<Rightarrow> pyval list \<Rightarrow> agent_tool list option \<Rightarrow> pydict option \<Rightarrow> real option
   \<Rightarrow> world \<Rightarrow> (exn + pydict) \<times> world" where
  "call_llm env self messages tools' response_format temperature' w =
     (let params = llm_params self messages tools' response_format temperature';
          w1 = record_event (LLMCall params) w
      in case chat_create env params w of
           Inr response \<Rightarrow>
             (Inr [''success'' \<mapsto> PBool True,
                   ''content'' \<mapsto> opt_str (content response),
                   ''tool_calls'' \<mapsto> tool_calls response,
                   ''usage'' \<mapsto> PDict [''prompt_tokens'' \<mapsto> PInt (prompt_tokens response),
                                         ''completion_tokens'' \<mapsto> PInt (completion_tokens response),
                                         ''total_tokens'' \<mapsto> PInt (total_tokens response)] ],
              w1)
         | Inl e \<Rightarrow>
             (case log_call env self ''error'' ''llm_call_failed''
                     [''error'' \<mapsto> PStr (exn_str e)] w1 of
                (Inl e', w2) \<Rightarrow> (Inl e', w2)
              | (Inr _, w2) \<Rightarrow>
                  (Inr [''success'' \<mapsto> PBool False,
                        ''error'' \<mapsto> PStr (exn_str e),
                        ''content'' \<mapsto> PNone],
                   w2)))"

definition execute_tool ::
  "env \<Rightarrow> base_agent \<Rightarrow> tool_call \<Rightarrow> world \<Rightarrow> (exn + string) \<times> world" where
  "execute_tool env self tc w =
     (let tool_name = function_name tc
      in case py_json_loads env (PStr (function_arguments tc)) of
           Inl e \<Rightarrow> (Inl e, w)
         | Inr arguments \<Rightarrow>
             (case find (\<lambda>t. t_name t = tool_name) (tools self) of
                None \<Rightarrow>
                  (json_dumps env
                     (PDict [''error'' \<mapsto> PStr (''Tool '' @ tool_name @ '' not found'')]), w)
              | Some tool \<Rightarrow>
                  (case (case dict_unpack arguments of
                           Inl e \<Rightarrow> (Inl e, w)
                         | Inr kwargs \<Rightarrow>
                             (case execute tool kwargs w of
                                (Inl e, w1) \<Rightarrow> (Inl e, w1)
                              | (Inr result, w1) \<Rightarrow>
                                  (json_dumps env (PDict [''result'' \<mapsto> result]), w1))) of
                     (Inl e, w1) \<Rightarrow> (json_dumps env (PDict [''error'' \<mapsto> PStr (exn_str e)]), w1)
                   | (Inr s, w1) \<Rightarrow> (Inr s, w1))))"

definition create_system_message :: "base_agent \<Rightarrow> string option \<Rightarrow> pyval" where
  "create_system_message self additional_context =
     (let content0 = system_prompt self;
          content1 = (case additional_context of
                        None \<Rightarrow> content0
                      | Some c \<Rightarrow>
                          if c \<noteq> []
                          then content0 @ [CHR 0x0A, CHR 0x0A] @ ''Additional Context:''
                               @ [CHR 0x0A] @ c
                          else content0)
      in PDict [''role'' \<mapsto> PStr ''system'', ''content'' \<mapsto> PStr content1])"

definition log_action ::
  "env \<Rightarrow> base_agent \<Rightarrow> agent_input \<Rightarrow> agent_output \<Rightarrow> int \<Rightarrow> pydict \<Rightarrow> world
   \<Rightarrow> (exn + unit) \<times> world" where
  "log_action env self input_data output_data latency_ms tokens w =
     log_call env self ''info'' ''agent_action''
       [''agent_type'' \<mapsto> PStr (agent_type self),
        ''user_id'' \<mapsto> opt_str (user_id input_data),
        ''conversation_id'' \<mapsto> opt_str (conversation_id input_data),
        ''success'' \<mapsto> PBool (success output_data),
        ''latency_ms'' \<mapsto> PInt latency_ms,
        ''tokens'' \<mapsto> PDict tokens] w"

text \<open>\<open>AgentRegistry.get\<close>, and a call of a registered agent's \<open>process\<close>.\<close>

definition registry_get :: "env \<Rightarrow> pyval \<Rightarrow> exn + agent option" where
  "registry_get env agent_type' = lookup_key (agent_registry env) agent_type'"

definition call_agent ::
  "string \<Rightarrow> agent \<Rightarrow> agent_input \<Rightarrow> world \<Rightarrow> (exn + agent_output) \<times> world" where
  "call_agent key a x w = (a x w, record_event (AgentCall key x) w)"

text \<open>The key under which a value that \<open>registry_get\<close> found is registered.\<close>

definition key_of :: "pyval \<Rightarrow> string" where
  "key_of v = (case v of PStr s \<Rightarrow> s | _ \<Rightarrow> [])"

section \<open>The orchestrator\<close>

text \<open>The static intent table of \<open>_analyze_and_route\<close>.\<close>

definition routing_map :: "string \<Rightarrow> string option" where
  "routing_map =
     [''search_medicine'' \<mapsto> ''medicine_search'',
      ''upload_prescription'' \<mapsto> ''prescription_validation'',
      ''check_order'' \<mapsto> ''customer_support'',
      ''create_order'' \<mapsto> ''order_processing'',
      ''payment'' \<mapsto> ''payment'',
      ''track_delivery'' \<mapsto> ''delivery'',
      ''general_question'' \<mapsto> ''customer_support'',
      ''safety_check'' \<mapsto> ''compliance_safety'']"

definition fallback_decision :: pydict where
  "fallback_decision =
     [''target_agent'' \<mapsto> PStr ''customer_support'',
      ''reasoning'' \<mapsto> PStr ''Fallback routing due to analysis failure'',
      ''context_to_pass'' \<mapsto> PDict Map.empty,
      ''priority'' \<mapsto> PStr ''normal'']"

definition analyze_and_route ::
  "env \<Rightarrow> base_agent \<Rightarrow> agent_input \<Rightarrow> world \<Rightarrow> (exn + pyval) \<times> world" where
  "analyze_and_route env self input_data w =
     (let user_message = (case payload input_data ''message'' of Some v \<Rightarrow> v | None \<Rightarrow> PStr []);
          intent = (case payload input_data ''intent'' of Some v \<Rightarrow> v | None \<Rightarrow> PNone)
      in if truthy intent
         then (case lookup_key routing_map intent of
                 Inl e \<Rightarrow> (Inl e, w)
               | Inr target \<Rightarrow>
                   (Inr (PDict
                      [''target_agent'' \<mapsto>
                          PStr (case target of Some a \<Rightarrow> a | None \<Rightarrow> ''customer_support''),
                       ''reasoning'' \<mapsto> PStr (''Explicit intent: '' @ py_str env intent),
                       ''context_to_pass'' \<mapsto> PDict Map.empty,
                       ''priority'' \<mapsto> PStr ''normal'']), w))
         else
           (let messages =
                  [create_system_message self None,
                   PDict [''role'' \<mapsto> PStr ''user'',
                          ''content'' \<mapsto>
                             PStr (''User message: '' @ py_str env user_message
                                   @ [CHR 0x0A, CHR 0x0A]
                                   @ ''Determine which agent should handle this request.'')] ]
            in case call_llm env self messages None
                      (Some [''type'' \<mapsto> PStr ''json_object'']) None w of
                 (Inl e, w1) \<Rightarrow> (Inl e, w1)
               | (Inr response, w1) \<Rightarrow>
                   (case response ''success'' of
                      None \<Rightarrow> (Inl (PyExn ''KeyError'' ([CHR 0x27] @ ''success'' @ [CHR 0x27])), w1)
                    | Some ok \<Rightarrow>
                        if truthy ok
                        then (case response ''content'' of
                                None \<Rightarrow>
                                  (Inl (PyExn ''KeyError'' ([CHR 0x27] @ ''content'' @ [CHR 0x27])), w1)
                              | Some c \<Rightarrow>
                                  (case py_json_loads env c of
                                     Inr decision \<Rightarrow> (Inr decision, w1)
                                   | Inl e \<Rightarrow>
                                       if exn_class e = ''JSONDecodeError''
                                       then (Inr (PDict fallback_decision), w1)
                                       else (Inl e, w1)))
                        else (Inr (PDict fallback_decision), w1))))"

text \<open>
  The body of the \<open>try\<close> block of \<open>process\<close>. The request object is mutable and the caller
  keeps a reference to it, so its final state is returned beside the result.
\<close>

definition process_try ::
  "env \<Rightarrow> base_agent \<Rightarrow> real \<Rightarrow> agent_input \<Rightarrow> world
   \<Rightarrow> (exn + agent_output) \<times> agent_input \<times> world" where
  "process_try env self start_time input_data w =
     (case analyze_and_route env self input_data w of
        (Inl e, w1) \<Rightarrow> (Inl e, input_data, w1)
      | (Inr routing_decision, w1) \<Rightarrow>
     (case py_get routing_decision ''target_agent'' (PStr ''customer_support'') of
        Inl e \<Rightarrow> (Inl e, input_data, w1)
      | Inr target_agent_type \<Rightarrow>
     (case py_get routing_decision ''context_to_pass'' (PDict Map.empty) of
        Inl e \<Rightarrow> (Inl e, input_data, w1)
      | Inr context \<Rightarrow>
     (case dict_unpack context of
        Inl e \<Rightarrow> (Inl e, input_data, w1)
      | Inr ctx \<Rightarrow>
     (let merged_payload = payload input_data ++ ctx;
          input_data' = input_data\<lparr>payload := merged_payload\<rparr>
      in case registry_get env target_agent_type of
        Inl e \<Rightarrow> (Inl e, input_data', w1)
      | Inr None \<Rightarrow>
          (let (out, w2) =
                 AgentOutput_new env False [''routing_decision'' \<mapsto> routing_decision]
                   (Some (''Agent '' @ py_str env target_agent_type @ '' not found''))
                   (Some ''AGENT_NOT_FOUND'') Map.empty w1
           in (Inr out, input_data', w2))
      | Inr (Some target_agent) \<Rightarrow>
     (case call_agent (key_of target_agent_type) target_agent input_data' w1 of
        (Inl e, w2) \<Rightarrow> (Inl e, input_data', w2)
      | (Inr result0, w2) \<Rightarrow>
     (let (now, w3) = time_time env w2;
          result = AgentOutput (success result0) (out_message_id result0) (out_timestamp result0)
                     (data result0) (error result0) (error_code result0)
                     ((out_metadata result0)
                        (''routing'' \<mapsto> routing_decision,
                         ''orchestrated_at'' \<mapsto> PStr (isoformat env now)))
                     (confidence result0) (escalation_needed result0);
          (now', w4) = time_time env w3;
          latency_ms = py_int ((now' - start_time) * 1000)
      in case log_action env self input_data' result latency_ms
                [''input'' \<mapsto> PInt 0, ''output'' \<mapsto> PInt 0] w4 of
           (Inl e, w5) \<Rightarrow> (Inl e, input_data', w5)
         | (Inr _, w5) \<Rightarrow> (Inr result, input_data', w5))))))))"

definition process ::
  "env \<Rightarrow> base_agent \<Rightarrow> agent_input \<Rightarrow> world \<Rightarrow> (exn + agent_output) \<times> agent_input \<times> world" where
  "process env self input_data w0 =
     (let (start_time, w) = time_time env w0
      in case process_try env self start_time input_data w of
           (Inr result, input_data', w') \<Rightarrow> (Inr result, input_data', w')
         | (Inl e, input_data', w') \<Rightarrow>
             (let (now, w1) = time_time env w';
                  latency_ms = py_int ((now - start_time) * 1000);
                  (out, w2) =
                    AgentOutput_new env False Map.empty (Some (exn_str e))
                      (Some ''ORCHESTRATION_ERROR'') [''latency_ms'' \<mapsto> PInt latency_ms] w1
              in (Inr out, input_data', w2)))"

text \<open>
  The loop of \<open>execute_workflow\<close> over the remaining steps, with the results log and the
  shared context gathered so far. A step is a dict.
\<close>

fun workflow_steps ::
  "env \<Rightarrow> string \<Rightarrow> agent_input \<Rightarrow> pydict list \<Rightarrow> pyval list \<Rightarrow> pydict \<Rightarrow> world
   \<Rightarrow> (exn + agent_output) \<times> world" where
  "workflow_steps env workflow_name input_data [] results context w =
     (let (out, w1) =
            AgentOutput_new env True
              [''workflow'' \<mapsto> PStr workflow_name,
               ''results'' \<mapsto> PList results,
               ''final_context'' \<mapsto> PDict context] None None Map.empty w
      in (Inr out, w1))"
| "workflow_steps env workflow_name input_data (step # steps) results context w =
     (case step ''agent'' of
        None \<Rightarrow> (Inl (PyExn ''KeyError'' ([CHR 0x27] @ ''agent'' @ [CHR 0x27])), w)
      | Some agent_type' \<Rightarrow>
     (case registry_get env agent_type' of
        Inl e \<Rightarrow> (Inl e, w)
      | Inr None \<Rightarrow>
          (let (out, w1) =
                 AgentOutput_new env False Map.empty
                   (Some (''Agent '' @ py_str env agent_type' @ '' not found in workflow''))
                   (Some ''WORKFLOW_AGENT_MISSING'') Map.empty w
           in (Inr out, w1))
      | Inr (Some agent) \<Rightarrow>
     (case dict_unpack (case step ''payload'' of Some v \<Rightarrow> v | None \<Rightarrow> PDict Map.empty) of
        Inl e \<Rightarrow> (Inl e, w)
      | Inr overrides \<Rightarrow>
     (let (step_input, w1) =
            AgentInput_new env (user_id input_data) (conversation_id input_data)
              (context ++ overrides) w
      in case call_agent (key_of agent_type') agent step_input w1 of
           (Inl e, w2) \<Rightarrow> (Inl e, w2)
         | (Inr result, w2) \<Rightarrow>
     (let results' = results @ [PDict [''agent'' \<mapsto> agent_type', ''result'' \<mapsto> PModel result] ]
      in if \<not> success result
            \<and> \<not> truthy (case step ''continue_on_error'' of Some v \<Rightarrow> v | None \<Rightarrow> PNone)
         then (let (out, w3) =
                     AgentOutput_new env False [''results'' \<mapsto> PList results']
                       (Some (''Workflow failed at step '' @ py_str env agent_type'))
                       (Some ''WORKFLOW_FAILED'') Map.empty w2
               in (Inr out, w3))
         else workflow_steps env workflow_name input_data steps results'
                (context ++ data result) w2)))))"

definition execute_workflow ::
  "env \<Rightarrow> base_agent \<Rightarrow> string \<Rightarrow> agent_input \<Rightarrow> pydict list \<Rightarrow> world
   \<Rightarrow> (exn + agent_output) \<times> world" where
  "execute_workflow env self workflow_name input_data steps w =
     workflow_steps env workflow_name input_data steps [] (payload input_data) w"

section \<open>Concrete environments for the examples\<close>

text \<open>
  A decoder that agrees with \<open>json.loads\<close> on the texts the examples use: three JSON
  documents, and text that is not JSON (every other text is rejected; the examples use it
  on truncated text only).
\<close>

definition decision_text :: string where
  \<open>decision_text = ''{"target_agent": "payment", "context_to_pass": {"coupon": "X1"}}''\<close>

definition decision_value :: pyval where
  "decision_value =
     PDict [''target_agent'' \<mapsto> PStr ''payment'',
            ''context_to_pass'' \<mapsto> PDict [''coupon'' \<mapsto> PStr ''X1''] ]"

definition demo_json_loads :: "string \<Rightarrow> string + pyval" where
  "demo_json_loads s =
     (if s = ''[]'' then Inr (PList [])
      else if s = ''{}'' then Inr (PDict Map.empty)
      else if s = decision_text then Inr decision_value
      else Inl ''Expecting value: line 1 column 1 (char 0)'')"

text \<open>
  The base environment: no agent registered, a provider that cannot be reached, a logger
  that never fails.
\<close>

definition demo_env :: env where
  "demo_env =
     \<lparr>agent_registry = Map.empty,
      chat_create = (\<lambda>params w. Inl (PyExn ''APIConnectionError'' ''Connection error.'')),
      logger = (\<lambda>level ev entry w. None),
      json_loads = demo_json_loads,
      json_dumps = (\<lambda>v. Inr ''{}''),
      py_repr = (\<lambda>v. ''<object>''),
      uuid4 = (\<lambda>n. replicate (Suc n) (CHR ''u'')),
      clock = (\<lambda>n. real n),
      isoformat = (\<lambda>t. ''2024-01-01T00:00:00'')\<rparr>"

definition llm_reply :: "string option \<Rightarrow> pydict \<Rightarrow> world \<Rightarrow> exn + completion" where
  "llm_reply c params w =
     Inr \<lparr>content = c, tool_calls = PNone, prompt_tokens = 0, completion_tokens = 0,
          total_tokens = 0\<rparr>"

definition const_agent :: "bool \<Rightarrow> pydict \<Rightarrow> string option \<Rightarrow> string option \<Rightarrow> agent" where
  "const_agent ok d err code x w = Inr (AgentOutput ok ''r'' 0 d err code Map.empty 1 False)"

definition echo_agent :: agent where
  "echo_agent x w = Inr (AgentOutput True ''r'' 0 (payload x) None None Map.empty 1 False)"

definition raising_agent :: "exn \<Rightarrow> agent" where
  "raising_agent e x w = Inl e"

definition demo_self :: base_agent where
  "demo_self =
     \<lparr>agent_type = ''orchestrator'', system_prompt = ''You are the Orchestrator Agent.'',
      model = ''gpt-4-1106-preview'', temperature = 0.3, max_tokens = 500, tools = []\<rparr>"

definition demo_world :: world where
  "demo_world = \<lparr>events = [], uuid_count = 0, clock_count = 0\<rparr>"

definition demo_input :: "pydict \<Rightarrow> agent_input" where
  "demo_input pl =
     \<lparr>user_id = Some ''user-1'', conversation_id = Some ''conv-1'', session_id = Some ''sess-1'',
      message_id = ''msg-0'', timestamp = 0, payload = pl,
      metadata = [''trace_id'' \<mapsto> PStr ''t-1'']\<rparr>"

definition support_env :: env where
  "support_env =
     demo_env\<lparr>agent_registry :=
       [''customer_support'' \<mapsto>
          const_agent True [''response'' \<mapsto> PStr ''Hello''] None None]\<rparr>"

text \<open>
  An environment for the workflow examples: a search agent whose data is \<open>{x: 1}\<close>, an
  order agent that returns the payload it received as its data, and a validation agent
  that fails. No \<open>inventory_management\<close> agent is registered.
\<close>

definition order_env :: env where
  "order_env =
     demo_env\<lparr>agent_registry :=
       [''medicine_search'' \<mapsto> const_agent True [''x'' \<mapsto> PInt 1] None None,
        ''order_processing'' \<mapsto> echo_agent,
        ''prescription_validation'' \<mapsto>
           const_agent False Map.empty (Some ''No prescription file provided'')
             (Some ''MISSING_FILE'')]\<rparr>"

definition search_tool :: agent_tool where
  "search_tool =
     \<lparr>t_name = ''search_medicines'', t_description = ''Search the catalogue'',
      t_handler = (\<lambda>kwargs w. Inr (PList [])), t_parameters = PDict Map.empty\<rparr>"

text \<open>A logger whose audit entries (\<open>agent_action\<close>, written by \<open>log_action\<close>) raise \<open>e\<close>.\<close>

definition failing_audit ::
  "exn \<Rightarrow> (string \<Rightarrow> string \<Rightarrow> pydict \<Rightarrow> world \<Rightarrow> exn option)
   \<Rightarrow> string \<Rightarrow> string \<Rightarrow> pydict \<Rightarrow> world \<Rightarrow> exn option" where
  "failing_audit e lg level ev entry w =
     (if ev = ''agent_action'' then Some e else lg level ev entry w)"

section \<open>Notions used to state the workflow properties\<close>






fun agent_requests :: "event list \<Rightarrow> agent_input list" where
  "agent_requests [] = []"
| "agent_requests (AgentCall key x # evs) = x # agent_requests evs"
| "agent_requests (ev # evs) = agent_requests evs"

text \<open>
  What \<open>process\<close> makes of the result of the target agent before it logs and returns
  it: the same result with \<open>routing\<close> and \<open>orchestrated_at\<close> set in its metadata.
\<close>

definition annotated :: "pyval \<Rightarrow> string \<Rightarrow> agent_output \<Rightarrow> agent_output" where
  "annotated routing_decision stamp r =
     AgentOutput (success r) (out_message_id r) (out_timestamp r) (data r) (error r)
       (error_code r)
       ((out_metadata r)(''routing'' \<mapsto> routing_decision, ''orchestrated_at'' \<mapsto> PStr stamp))
       (confidence r) (escalation_needed r)"

section \<open>Facts used throughout\<close>

lemmas demo_defs =
  demo_env_def llm_reply_def const_agent_def echo_agent_def raising_agent_def demo_self_def
  demo_world_def demo_input_def demo_json_loads_def decision_text_def decision_value_def
  search_tool_def failing_audit_def support_env_def order_env_def

lemmas model_defs =
  process_def process_try_def analyze_and_route_def call_llm_def log_action_def log_call_def
  create_system_message_def call_agent_def registry_get_def lookup_key_def py_get_def
  dict_unpack_def py_json_loads_def py_str_def key_of_def opt_str_def truthy_def hashable_def
  type_name_def AgentOutput_new_def AgentInput_new_def new_uuid_def time_time_def
  record_event_def routing_map_def fallback_decision_def Let_def

section \<open>Totality of the orchestrator\<close>

text \<open>
  C1. \<open>process\<close> returns a response for every request, whatever the environment does: it
  never raises. When the body of its \<open>try\<close> block raises \<open>e\<close> (in routing, in the merge of
  the payload, in the dispatch or in the annotation), the response has \<open>success = False\<close>,
  \<open>error_code = ORCHESTRATION_ERROR\<close>, \<open>error = str(e)\<close> and a metadata that holds the
  elapsed latency, from the clock reading at entry to the one in the handler. When the
  body returns, \<open>process\<close> returns its result.
\<close>

theorem process_total:
  "\<exists>out inp' w'. process env self input_data w0 = (Inr out, inp', w') \<and>
     (\<forall>e inp1 w1.
        process_try env self (fst (time_time env w0)) input_data (snd (time_time env w0))
          = (Inl e, inp1, w1) \<longrightarrow>
        \<not> success out \<and> error_code out = Some ''ORCHESTRATION_ERROR'' \<and>
        error out = Some (exn_str e) \<and>
        out_metadata out =
          [''latency_ms'' \<mapsto>
             PInt (py_int ((fst (time_time env w1) - fst (time_time env w0)) * 1000))]) \<and>
     (\<forall>r inp1 w1.
        process_try env self (fst (time_time env w0)) input_data (snd (time_time env w0))
          = (Inr r, inp1, w1) \<longrightarrow> out = r)"
  by (auto simp: process_def AgentOutput_new_def new_uuid_def Let_def
           split: prod.splits sum.splits)

text \<open>
  Both cases occur. With a model that answers \<open>[]\<close>, the read of \<open>target_agent\<close> raises and
  the response is the catch-all failure; with an explicit intent and no agent registered,
  the body returns the \<open>AGENT_NOT_FOUND\<close> response.
\<close>

theorem process_total_witness:
  "(\<exists>out inp' w'.
      process (demo_env\<lparr>chat_create := llm_reply (Some ''[]'')\<rparr>) demo_self
        (demo_input [''message'' \<mapsto> PStr ''hello'']) demo_world = (Inr out, inp', w') \<and>
      \<not> success out \<and> error_code out = Some ''ORCHESTRATION_ERROR'' \<and>
      out_metadata out = [''latency_ms'' \<mapsto> PInt 1000]) \<and>
   (\<exists>out inp' w'.
      process demo_env demo_self (demo_input [''intent'' \<mapsto> PStr ''payment'']) demo_world
        = (Inr out, inp', w') \<and>
      error_code out = Some ''AGENT_NOT_FOUND'')"
proof -
  let ?env = "demo_env\<lparr>chat_create := llm_reply (Some ''[]'')\<rparr>"
  let ?inp = "demo_input [''message'' \<mapsto> PStr ''hello'']"
  have raises: "\<exists>e w1.
      process_try ?env demo_self (fst (time_time ?env demo_world)) ?inp
        (snd (time_time ?env demo_world)) = (Inl e, ?inp, w1) \<and> clock_count w1 = 1"
    by (simp add: model_defs demo_defs)
  have first: "\<exists>out inp' w'. process ?env demo_self ?inp demo_world = (Inr out, inp', w') \<and>
      \<not> success out \<and> error_code out = Some ''ORCHESTRATION_ERROR'' \<and>
      out_metadata out = [''latency_ms'' \<mapsto> PInt 1000]"
  proof -
    from raises obtain e w1 where
      r: "process_try ?env demo_self (fst (time_time ?env demo_world)) ?inp
            (snd (time_time ?env demo_world)) = (Inl e, ?inp, w1)" and c: "clock_count w1 = 1"
      by blast
    from process_total [of ?env demo_self ?inp demo_world] r obtain out inp' w' where
      p: "process ?env demo_self ?inp demo_world = (Inr out, inp', w')" and
      q: "\<not> success out" "error_code out = Some ''ORCHESTRATION_ERROR''"
         "out_metadata out =
            [''latency_ms'' \<mapsto>
               PInt (py_int ((fst (time_time ?env w1) - fst (time_time ?env demo_world)) * 1000))]"
      by blast
    have "py_int ((fst (time_time ?env w1) - fst (time_time ?env demo_world)) * 1000) = 1000"
      using c by (simp add: time_time_def demo_env_def demo_world_def py_int_def)
    with p q show ?thesis by simp
  qed
  let ?inp2 = "demo_input [''intent'' \<mapsto> PStr ''payment'']"
  have returns: "\<exists>r w1.
      process_try demo_env demo_self (fst (time_time demo_env demo_world)) ?inp2
        (snd (time_time demo_env demo_world)) = (Inr r, ?inp2, w1) \<and>
      error_code r = Some ''AGENT_NOT_FOUND''"
    by (simp add: model_defs demo_defs)
  have second: "\<exists>out inp' w'. process demo_env demo_self ?inp2 demo_world = (Inr out, inp', w') \<and>
      error_code out = Some ''AGENT_NOT_FOUND''"
  proof -
    from returns obtain r w1 where
      r: "process_try demo_env demo_self (fst (time_time demo_env demo_world)) ?inp2
            (snd (time_time demo_env demo_world)) = (Inr r, ?inp2, w1)" and
      c: "error_code r = Some ''AGENT_NOT_FOUND''"
      by blast
    from process_total [of demo_env demo_self ?inp2 demo_world] r obtain out inp' w' where
      "process demo_env demo_self ?inp2 demo_world = (Inr out, inp', w')" "out = r"
      by blast
    with c show ?thesis by simp
  qed
  from first second show ?thesis by blast
qed

section \<open>Routing\<close>

text \<open>
  C2, as stated, fails: the test \<open>if intent:\<close> is a truth test, so a payload whose intent
  field is the empty string takes the model path. With a model that answers
  \<open>decision_text\<close> the decision targets \<open>payment\<close>, not the default \<open>customer_support\<close>
  of an intent that is not in the table; with a model that cannot be reached it is the
  fallback decision; and one call to the provider is recorded.
\<close>

theorem explicit_intent_counterexample:
  "payload (demo_input [''intent'' \<mapsto> PStr '''']) ''intent'' = Some (PStr []) \<and>
   routing_map [] = None \<and>
   fst (analyze_and_route (demo_env\<lparr>chat_create := llm_reply (Some decision_text)\<rparr>) demo_self
          (demo_input [''intent'' \<mapsto> PStr '''']) demo_world)
     = Inr (PDict [''target_agent'' \<mapsto> PStr ''payment'',
                   ''context_to_pass'' \<mapsto> PDict [''coupon'' \<mapsto> PStr ''X1''] ]) \<and>
   fst (analyze_and_route demo_env demo_self (demo_input [''intent'' \<mapsto> PStr '''']) demo_world)
     = Inr (PDict fallback_decision) \<and>
   length (events (snd (analyze_and_route
                          (demo_env\<lparr>chat_create := llm_reply (Some decision_text)\<rparr>)
                          demo_self (demo_input [''intent'' \<mapsto> PStr '''']) demo_world))) = 1"
  by (simp add: model_defs demo_defs)

text \<open>
  C2, amended. Whenever the intent of the payload is truthy and hashable (any non-empty
  string is), \<open>_analyze_and_route\<close> returns a decision whose \<open>target_agent\<close> is the image
  of the intent in the static table, and \<open>customer_support\<close> when the intent is not in the
  table; the world is unchanged, so no call to the model is made, and the result is the
  same whatever the provider would do.
\<close>

theorem explicit_intent_routing:
  assumes "payload input_data ''intent'' = Some intent" and "truthy intent" and "hashable intent"
  shows "\<exists>d. analyze_and_route env self input_data w = (Inr (PDict d), w) \<and>
           d ''target_agent'' =
             Some (PStr (case intent of
                           PStr s \<Rightarrow> (case routing_map s of
                                        Some a \<Rightarrow> a | None \<Rightarrow> ''customer_support'')
                         | _ \<Rightarrow> ''customer_support'')) \<and>
           (\<forall>f. analyze_and_route (env\<lparr>chat_create := f\<rparr>) self input_data w
                = (Inr (PDict d), w))"
  using assms
  by (cases intent)
     (simp_all add: analyze_and_route_def lookup_key_def Let_def py_str_def hashable_def)

theorem explicit_intent_routing_witness:
  "(\<exists>d. analyze_and_route demo_env demo_self
           (demo_input [''intent'' \<mapsto> PStr ''search_medicine'']) demo_world
           = (Inr (PDict d), demo_world) \<and>
         d ''target_agent'' = Some (PStr ''medicine_search'')) \<and>
   (\<exists>d. analyze_and_route demo_env demo_self
           (demo_input [''intent'' \<mapsto> PStr ''upload_prescription'']) demo_world
           = (Inr (PDict d), demo_world) \<and>
         d ''target_agent'' = Some (PStr ''prescription_validation'')) \<and>
   (\<exists>d. analyze_and_route demo_env demo_self
           (demo_input [''intent'' \<mapsto> PStr ''create_order'']) demo_world
           = (Inr (PDict d), demo_world) \<and>
         d ''target_agent'' = Some (PStr ''order_processing'')) \<and>
   (\<exists>d. analyze_and_route demo_env demo_self
           (demo_input [''intent'' \<mapsto> PStr ''refill'']) demo_world
           = (Inr (PDict d), demo_world) \<and>
         d ''target_agent'' = Some (PStr ''customer_support''))"
proof -
  have a: "payload (demo_input [''intent'' \<mapsto> v]) ''intent'' = Some v" for v
    by (simp add: demo_input_def)
  have t: "truthy (PStr ''search_medicine'')" "truthy (PStr ''upload_prescription'')"
    "truthy (PStr ''create_order'')" "truthy (PStr ''refill'')"
    by (simp_all add: truthy_def)
  have h: "hashable (PStr s)" for s
    by (simp add: hashable_def)
  show ?thesis
    using explicit_intent_routing [OF a t(1) h, of demo_env demo_self demo_world]
      explicit_intent_routing [OF a t(2) h, of demo_env demo_self demo_world]
      explicit_intent_routing [OF a t(3) h, of demo_env demo_self demo_world]
      explicit_intent_routing [OF a t(4) h, of demo_env demo_self demo_world]
    by (simp add: routing_map_def) blast
qed

text \<open>
  The fallback of the model path. A request without a truthy intent is routed by the
  model. When the call to the provider fails (and the error is logged), or the content is
  text that is not JSON, the decision is the fallback decision.
\<close>

lemma fallback_on_llm_failure:
  assumes "\<not> truthy (case payload input_data ''intent'' of Some v \<Rightarrow> v | None \<Rightarrow> PNone)"
    and "\<And>params w'. chat_create env params w' = Inl e"
    and "\<And>level ev entry w'. logger env level ev entry w' = None"
  shows "fst (analyze_and_route env self input_data w) = Inr (PDict fallback_decision)"
  using assms by (simp add: analyze_and_route_def call_llm_def log_call_def Let_def truthy_def)

lemma fallback_on_malformed_json:
  assumes "\<not> truthy (case payload input_data ''intent'' of Some v \<Rightarrow> v | None \<Rightarrow> PNone)"
    and "\<And>params w'. chat_create env params w' = Inr c"
    and "content c = Some s" and "json_loads env s = Inl msg"
  shows "fst (analyze_and_route env self input_data w) = Inr (PDict fallback_decision)"
  using assms
  by (simp add: analyze_and_route_def call_llm_def Let_def truthy_def opt_str_def
        py_json_loads_def)

text \<open>
  C3 does not hold of the code. The handler around \<open>json.loads\<close> catches
  \<open>JSONDecodeError\<close> only. Content that is JSON but no decision object is returned as the
  decision: the list \<open>[]\<close>, on which \<open>process\<close> then ends in the catch-all failure, and the
  object \<open>{}\<close>, which has no priority. A completion without content makes \<open>json.loads\<close>
  raise a \<open>TypeError\<close>, which leaves \<open>_analyze_and_route\<close>.
\<close>

theorem fallback_misses_non_decision:
  "fst (analyze_and_route (demo_env\<lparr>chat_create := llm_reply (Some ''[]'')\<rparr>) demo_self
          (demo_input [''message'' \<mapsto> PStr ''hello'']) demo_world) = Inr (PList []) \<and>
   map_sum id error_code
     (fst (process (demo_env\<lparr>chat_create := llm_reply (Some ''[]'')\<rparr>) demo_self
             (demo_input [''message'' \<mapsto> PStr ''hello'']) demo_world))
     = Inr (Some ''ORCHESTRATION_ERROR'') \<and>
   fst (analyze_and_route (demo_env\<lparr>chat_create := llm_reply (Some ''{}'')\<rparr>) demo_self
          (demo_input [''message'' \<mapsto> PStr ''hello'']) demo_world) = Inr (PDict Map.empty) \<and>
   fst (analyze_and_route (demo_env\<lparr>chat_create := llm_reply None\<rparr>) demo_self
          (demo_input [''message'' \<mapsto> PStr ''hello'']) demo_world)
     = Inl (PyExn ''TypeError''
              ''the JSON object must be str, bytes or bytearray, not NoneType'')"
  by (simp add: model_defs demo_defs)

section \<open>Collaborators that routing does not depend on\<close>




section \<open>The failure envelope\<close>







section \<open>Tool execution\<close>

text \<open>
  When the arguments decode, \<open>execute_tool\<close> returns: an unknown tool, a handler that
  raises, arguments that are no object and a result that cannot be serialised all end in
  the serialised error object, provided that object itself can be serialised.
\<close>

lemma execute_tool_returns:
  assumes "json_loads env (function_arguments tc) = Inr a"
    and "\<And>s. \<not> isl (json_dumps env (PDict [''error'' \<mapsto> PStr s]))"
  shows "\<not> isl (fst (execute_tool env self tc w))"
  using assms
  by (auto simp: execute_tool_def py_json_loads_def Let_def
           split: option.splits sum.splits prod.splits)

text \<open>
  C7 does not hold of the code. \<open>json.loads\<close> is applied to the arguments before the tool
  is looked up and outside the \<open>try\<close> block, so argument text that is not JSON, here
  arguments cut off in the middle, makes \<open>execute_tool\<close> raise \<open>JSONDecodeError\<close>, for a
  known tool and for an unknown one.
\<close>

theorem execute_tool_raises:
  \<open>execute_tool demo_env (demo_self\<lparr>tools := [search_tool]\<rparr>)
     \<lparr>function_name = ''search_medicines'', function_arguments = ''{"query": "asp''\<rparr> demo_world
     = (Inl (PyExn ''JSONDecodeError'' ''Expecting value: line 1 column 1 (char 0)''),
        demo_world) \<and>
   execute_tool demo_env (demo_self\<lparr>tools := [search_tool]\<rparr>)
     \<lparr>function_name = ''no_such_tool'', function_arguments = ''{"query": "asp''\<rparr> demo_world
     = (Inl (PyExn ''JSONDecodeError'' ''Expecting value: line 1 column 1 (char 0)''),
        demo_world)\<close>
  by (simp add: execute_tool_def py_json_loads_def demo_defs)

section \<open>The audit sink\<close>

text \<open>
  C8, as stated, fails. \<open>log_action\<close> is called inside the \<open>try\<close> block of \<open>process\<close>.
  The agent is called and returns a successful result; the audit entry then raises, and
  the caller receives the catch-all failure instead of the result.
\<close>

theorem audit_isolation_counterexample:
  "fst (process (support_env\<lparr>logger :=
                    failing_audit (PyExn ''OSError'' ''No space left on device'') (logger support_env)\<rparr>)
          demo_self (demo_input [''intent'' \<mapsto> PStr ''general_question'']) demo_world)
     = Inr (AgentOutput False ''u'' 4 Map.empty (Some ''No space left on device'')
              (Some ''ORCHESTRATION_ERROR'') [''latency_ms'' \<mapsto> PInt 3000] 1 False) \<and>
   agent_requests (events (snd (snd (process (support_env\<lparr>logger :=
                    failing_audit (PyExn ''OSError'' ''No space left on device'') (logger support_env)\<rparr>)
          demo_self (demo_input [''intent'' \<mapsto> PStr ''general_question'']) demo_world))))
     = [demo_input [''intent'' \<mapsto> PStr ''general_question''] ] \<and>
   const_agent True [''response'' \<mapsto> PStr ''Hello''] None None
     (demo_input [''intent'' \<mapsto> PStr ''general_question'']) demo_world
     = Inr (AgentOutput True ''r'' 0 [''response'' \<mapsto> PStr ''Hello''] None None Map.empty 1 False)"
  by (simp add: model_defs demo_defs py_int_def)

text \<open>
  C8, amended. The \<open>log_action\<close> call that \<open>process\<close> makes after a successful
  dispatch is inside the \<open>try\<close> block. Whenever routing returns a decision with a dict
  context and a target that is registered, and the target agent returns a result \<open>r0\<close>,
  \<open>process\<close> calls \<open>log_action\<close> on the annotated result with the elapsed latency, and
  what the caller receives is decided by that call: when it returns, the caller receives
  the annotated result of the agent; when it raises \<open>e\<close>, the handler of \<open>process\<close>
  catches it and the caller receives \<open>success = False\<close>,
  \<open>error_code = ORCHESTRATION_ERROR\<close>, \<open>error = str(e)\<close> and the elapsed latency as the
  only metadata, instead of the result of the agent.
\<close>

theorem log_action_decides:
  assumes route: "analyze_and_route env self input_data (snd (time_time env w0)) = (Inr (PDict d), w1)"
    and ctx: "(case d ''context_to_pass'' of Some v \<Rightarrow> v | None \<Rightarrow> PDict Map.empty) = PDict ctx"
    and target: "(case d ''target_agent'' of Some v \<Rightarrow> v | None \<Rightarrow> PStr ''customer_support'')
                   = PStr key"
    and reg: "agent_registry env key = Some a"
    and inp': "inp' = input_data\<lparr>payload := payload input_data ++ ctx\<rparr>"
    and call: "a inp' w1 = Inr r0"
    and result: "result = annotated (PDict d) (isoformat env (clock env (clock_count w1))) r0"
    and latency: "latency = py_int ((clock env (Suc (clock_count w1)) - clock env (clock_count w0)) * 1000)"
    and w4: "w4 = (record_event (AgentCall key inp') w1)\<lparr>clock_count := Suc (Suc (clock_count w1))\<rparr>"
    and logged: "logged = log_action env self inp' result latency
                            [''input'' \<mapsto> PInt 0, ''output'' \<mapsto> PInt 0] w4"
  shows "\<exists>out w'. process env self input_data w0 = (Inr out, inp', w') \<and>
           (\<forall>w5. logged = (Inr (), w5) \<longrightarrow> out = result \<and> w' = w5) \<and>
           (\<forall>e w5. logged = (Inl e, w5) \<longrightarrow>
              \<not> success out \<and> error_code out = Some ''ORCHESTRATION_ERROR'' \<and>
              error out = Some (exn_str e) \<and>
              out_metadata out =
                [''latency_ms'' \<mapsto>
                   PInt (py_int ((clock env (clock_count w5) - clock env (clock_count w0)) * 1000))])"
proof -
  let ?t = "fst (time_time env w0)"
  have t: "?t = clock env (clock_count w0)" by (simp add: time_time_def)
  have w4': "w4 = snd (time_time env (snd (time_time env (record_event (AgentCall key inp') w1))))"
    by (simp add: w4 time_time_def record_event_def)
  have pt: "process_try env self ?t input_data (snd (time_time env w0)) =
        (case logged of (Inl e, w5) \<Rightarrow> (Inl e, inp', w5) | (Inr u, w5) \<Rightarrow> (Inr result, inp', w5))"
    using route ctx target reg call
    by (simp add: process_try_def py_get_def dict_unpack_def registry_get_def lookup_key_def
          hashable_def key_of_def call_agent_def Let_def inp' logged result latency
          annotated_def w4 time_time_def record_event_def
          split: prod.splits sum.splits)
  show ?thesis
  proof (cases logged)
    case (Pair lr w5)
    show ?thesis
    proof (cases lr)
      case (Inl e)
      have f: "fst (time_time env w) = clock env (clock_count w)" for w
        by (simp add: time_time_def)
      from Inl Pair pt show ?thesis
        by (simp add: process_def Let_def split_beta AgentOutput_new_def new_uuid_def f)
    next
      case (Inr u)
      from Inr Pair pt show ?thesis
        by (simp add: process_def Let_def split_beta)
    qed
  qed
qed

theorem log_action_decides_witness:
  "(\<exists>out w'. process support_env demo_self
                (demo_input [''intent'' \<mapsto> PStr ''general_question'']) demo_world
              = (Inr out, demo_input [''intent'' \<mapsto> PStr ''general_question''], w') \<and>
      success out \<and> data out = [''response'' \<mapsto> PStr ''Hello''] \<and>
      out_metadata out ''orchestrated_at'' = Some (PStr ''2024-01-01T00:00:00'')) \<and>
   (\<exists>out w'. process
                (support_env\<lparr>logger := failing_audit (PyExn ''OSError'' ''No space left on device'')
                                         (logger support_env)\<rparr>)
                demo_self (demo_input [''intent'' \<mapsto> PStr ''general_question'']) demo_world
              = (Inr out, demo_input [''intent'' \<mapsto> PStr ''general_question''], w') \<and>
      \<not> success out \<and> error_code out = Some ''ORCHESTRATION_ERROR'' \<and>
      error out = Some ''No space left on device'' \<and>
      out_metadata out = [''latency_ms'' \<mapsto> PInt 3000])"
proof -
  let ?inp = "demo_input [''intent'' \<mapsto> PStr ''general_question'']"
  let ?bad = "support_env\<lparr>logger := failing_audit (PyExn ''OSError'' ''No space left on device'')
                                         (logger support_env)\<rparr>"
  let ?d = "[''target_agent'' \<mapsto> PStr ''customer_support'',
             ''reasoning'' \<mapsto> PStr ''Explicit intent: general_question'',
             ''context_to_pass'' \<mapsto> PDict Map.empty,
             ''priority'' \<mapsto> PStr ''normal'']"
  let ?w1 = "demo_world\<lparr>clock_count := 1\<rparr>"
  let ?a = "const_agent True [''response'' \<mapsto> PStr ''Hello''] None None"
  let ?r0 = "AgentOutput True ''r'' 0 [''response'' \<mapsto> PStr ''Hello''] None None Map.empty 1 False"
  have ctx: "(case ?d ''context_to_pass'' of Some v \<Rightarrow> v | None \<Rightarrow> PDict Map.empty)
               = PDict Map.empty"
    and target: "(case ?d ''target_agent'' of Some v \<Rightarrow> v | None \<Rightarrow> PStr ''customer_support'')
               = PStr ''customer_support''"
    by simp_all
  have inp: "?inp = ?inp\<lparr>payload := payload ?inp ++ Map.empty\<rparr>" by simp
  have call: "?a ?inp ?w1 = Inr ?r0" by (simp add: const_agent_def)
  have route1: "analyze_and_route support_env demo_self ?inp (snd (time_time support_env demo_world))
                  = (Inr (PDict ?d), ?w1)"
    by (simp add: model_defs demo_defs)
  have reg1: "agent_registry support_env ''customer_support'' = Some ?a"
    by (simp add: demo_defs)
  have route2: "analyze_and_route ?bad demo_self ?inp (snd (time_time ?bad demo_world))
                  = (Inr (PDict ?d), ?w1)"
    by (simp add: model_defs demo_defs)
  have reg2: "agent_registry ?bad ''customer_support'' = Some ?a"
    by (simp add: demo_defs)
  note good = log_action_decides [OF route1 ctx target reg1 inp call refl refl refl refl]
  note bad = log_action_decides [OF route2 ctx target reg2 inp call refl refl refl refl]
  have first: "\<exists>out w'. process support_env demo_self ?inp demo_world = (Inr out, ?inp, w') \<and>
      success out \<and> data out = [''response'' \<mapsto> PStr ''Hello''] \<and>
      out_metadata out ''orchestrated_at'' = Some (PStr ''2024-01-01T00:00:00'')"
    using good
    by (simp add: log_action_def log_call_def annotated_def demo_defs split_beta) 
  have second: "\<exists>out w'. process ?bad demo_self ?inp demo_world = (Inr out, ?inp, w') \<and>
      \<not> success out \<and> error_code out = Some ''ORCHESTRATION_ERROR'' \<and>
      error out = Some ''No space left on device'' \<and>
      out_metadata out = [''latency_ms'' \<mapsto> PInt 3000]"
    using bad
    by (simp add: log_action_def log_call_def record_event_def demo_defs py_int_def split_beta)
  from first second show ?thesis by (rule conjI)
qed

section \<open>The request object\<close>







section \<open>Workflows\<close>
















text \<open>
  The two fatal aborts at the first of the remaining steps. A step whose agent is not
  registered ends the workflow with \<open>WORKFLOW_AGENT_MISSING\<close>, whatever its
  \<open>continue_on_error\<close>, without a call; its response has no data. A step whose agent
  returns \<open>success = False\<close>, without a truthy \<open>continue_on_error\<close>, ends the workflow with
  \<open>WORKFLOW_FAILED\<close> after that one call, and the response carries the results log
  including the entry of the failed step.
\<close>

lemma workflow_missing_agent_aborts:
  assumes "st ''agent'' = Some (PStr k)" and "agent_registry env k = None"
  shows "\<exists>out w'. workflow_steps env name inp (st # sts) results cx w = (Inr out, w') \<and>
           \<not> success out \<and> error_code out = Some ''WORKFLOW_AGENT_MISSING'' \<and>
           data out = Map.empty \<and> events w' = events w"
  using assms
  by (simp add: registry_get_def lookup_key_def hashable_def AgentOutput_new_def new_uuid_def
        time_time_def Let_def)

lemma workflow_failed_step_aborts:
  assumes "st ''agent'' = Some (PStr k)" and "agent_registry env k = Some a"
    and "dict_unpack (case st ''payload'' of Some v \<Rightarrow> v | None \<Rightarrow> PDict Map.empty) = Inr ov"
    and "AgentInput_new env (user_id inp) (conversation_id inp) (cx ++ ov) w = (req, w1)"
    and "a req w1 = Inr r" and "\<not> success r"
    and "\<not> truthy (case st ''continue_on_error'' of Some v \<Rightarrow> v | None \<Rightarrow> PNone)"
  shows "\<exists>out w'. workflow_steps env name inp (st # sts) results cx w = (Inr out, w') \<and>
           \<not> success out \<and> error_code out = Some ''WORKFLOW_FAILED'' \<and>
           data out = [''results'' \<mapsto>
                         PList (results @ [PDict [''agent'' \<mapsto> PStr k,
                                                  ''result'' \<mapsto> PModel r] ])] \<and>
           events w' = events w @ [AgentCall k req]"
  using assms
  by (auto simp: registry_get_def lookup_key_def hashable_def key_of_def call_agent_def
        record_event_def AgentOutput_new_def AgentInput_new_def new_uuid_def time_time_def Let_def
      split: prod.splits)

lemma workflow_fail_fast_example:
  "fst (execute_workflow order_env demo_self ''refill'' (demo_input [''q'' \<mapsto> PStr ''aspirin''])
          [ [''agent'' \<mapsto> PStr ''prescription_validation''],
           [''agent'' \<mapsto> PStr ''order_processing''] ] demo_world)
     = Inr (AgentOutput False ''uu'' 1
              [''results'' \<mapsto>
                 PList [PDict [''agent'' \<mapsto> PStr ''prescription_validation'',
                               ''result'' \<mapsto>
                                  PModel (AgentOutput False ''r'' 0 Map.empty
                                            (Some ''No prescription file provided'')
                                            (Some ''MISSING_FILE'') Map.empty 1 False)] ]]
              (Some ''Workflow failed at step prescription_validation'')
              (Some ''WORKFLOW_FAILED'') Map.empty 1 False) \<and>
   length (agent_requests (events (snd
     (execute_workflow order_env demo_self ''refill'' (demo_input [''q'' \<mapsto> PStr ''aspirin''])
          [ [''agent'' \<mapsto> PStr ''prescription_validation''],
           [''agent'' \<mapsto> PStr ''order_processing''] ] demo_world)))) = 1"
  by (simp add: execute_workflow_def model_defs demo_defs)

text \<open>
  C4 does not hold of the code. The response for a missing agent is built without data:
  the search step has run (one request was handed to an agent), the next step names an
  agent that is not registered, and the response carries no results log at all.
\<close>

theorem workflow_missing_agent_drops_results:
  "fst (execute_workflow order_env demo_self ''refill'' (demo_input [''q'' \<mapsto> PStr ''aspirin''])
          [ [''agent'' \<mapsto> PStr ''medicine_search''],
           [''agent'' \<mapsto> PStr ''inventory_management''] ] demo_world)
     = Inr (AgentOutput False ''uu'' 1 Map.empty
              (Some ''Agent inventory_management not found in workflow'')
              (Some ''WORKFLOW_AGENT_MISSING'') Map.empty 1 False) \<and>
   map payload (agent_requests (events (snd
     (execute_workflow order_env demo_self ''refill'' (demo_input [''q'' \<mapsto> PStr ''aspirin''])
          [ [''agent'' \<mapsto> PStr ''medicine_search''],
           [''agent'' \<mapsto> PStr ''inventory_management''] ] demo_world))))
     = [ [''q'' \<mapsto> PStr ''aspirin''] ]"
  by (simp add: execute_workflow_def model_defs demo_defs)

end
